theory Spec2Isabelle
  imports Complex_Main
begin

section \<open>YouTube Download Tool: a model of \<open>src/main.py\<close>\<close>

text \<open>
  The program drives two external collaborators: the extraction engine (\<open>yt_dlp\<close>) and the
  media-processing binary (\<open>ffmpeg\<close>). Neither is part of the repository, so both are
  parameters of the model (the record \<open>env\<close> below): every theorem holds for whatever they
  answer. The file system is a finite map from path strings to file contents, console output is
  a list of messages, and every Python exception is a value of type \<open>exn\<close>.
\<close>

subsection \<open>Constants (lines 32--40)\<close>

definition SUPPORTED_SUBTITLE_FORMATS :: "string list" where
  "SUPPORTED_SUBTITLE_FORMATS = [''.vtt'', ''.srt'', ''.ass'']"

definition EXIT_SUCCESS :: int where "EXIT_SUCCESS = 0"
definition EXIT_GENERAL_ERROR :: int where "EXIT_GENERAL_ERROR = 1"
definition EXIT_NETWORK_ERROR :: int where "EXIT_NETWORK_ERROR = 2"

subsection \<open>Exceptions\<close>

text \<open>
  The subclasses of Python's \<open>Exception\<close> that the program can meet. \<open>CalledProcessError\<close>
  carries the return code and is a \<open>SubprocessError\<close>; \<open>FileNotFoundError\<close> is an \<open>OSError\<close>.
  \<open>sys.exit\<close> is a separate outcome (\<open>Exit\<close> below), since \<open>except Exception\<close> does not catch it.
\<close>

datatype exn =
  ValueError
  | FileNotFoundError
  | OSError
  | CalledProcessError int
  | SubprocessError
  | DownloadError
  | OtherException

subsection \<open>Paths (\<open>pathlib\<close>) and the file system\<close>

text \<open>
  A \<open>Path\<close> is kept as the string \<open>str\<close> prints for it. \<open>Path('')\<close> is \<open>'.'\<close>; other strings
  are taken as already normalised (the engine answers absolute file names below the resolved
  output directory). \<open>name\<close> is the last component (empty for \<open>'.'\<close> and for the root),
  \<open>suffix\<close> is \<open>name[i:]\<close> for \<open>i = name.rfind('.')\<close> when \<open>0 < i < len(name) - 1\<close>, and
  \<open>with_suffix\<close> raises \<open>ValueError\<close> for an invalid suffix or a path with an empty name.
\<close>

type_synonym path = string

definition Path :: "string \<Rightarrow> path" where
  "Path s = (if s = [] then ''.'' else s)"

definition path_name :: "path \<Rightarrow> string" where
  "path_name p = (if p = ''.'' then [] else rev (takeWhile (\<lambda>c. c \<noteq> CHR ''/'') (rev p)))"

definition rfind :: "char \<Rightarrow> string \<Rightarrow> int" where
  "rfind c s =
     (if c \<in> set s then int (length s) - 1 - int (length (takeWhile (\<lambda>x. x \<noteq> c) (rev s)))
      else - 1)"

definition path_suffix :: "path \<Rightarrow> string" where
  "path_suffix p =
     (let name = path_name p; i = rfind (CHR ''.'') name
      in if 0 < i \<and> i < int (length name) - 1 then drop (nat i) name else [])"

definition with_suffix :: "path \<Rightarrow> string \<Rightarrow> exn + path" where
  "with_suffix p suffix =
     (if CHR ''/'' \<in> set suffix then Inl ValueError
      else if (suffix \<noteq> [] \<and> take 1 suffix \<noteq> ''.'') \<or> suffix = ''.'' then Inl ValueError
      else if path_name p = [] then Inl ValueError
      else if path_suffix p = [] then Inr (p @ suffix)
      else Inr (take (length p - length (path_suffix p)) p @ suffix))"

type_synonym fs = "path \<rightharpoonup> string"

definition exists :: "fs \<Rightarrow> path \<Rightarrow> bool" where
  "exists files p = (files p \<noteq> None)"

definition unlink :: "fs \<Rightarrow> path \<Rightarrow> exn + fs" where
  "unlink files p = (if exists files p then Inr (files(p := None)) else Inl FileNotFoundError)"

definition rename :: "fs \<Rightarrow> path \<Rightarrow> path \<Rightarrow> exn + fs" where
  "rename files src dst =
     (case files src of
        None \<Rightarrow> Inl FileNotFoundError
      | Some content \<Rightarrow> Inr ((files(src := None))(dst \<mapsto> content)))"

subsection \<open>Command-line arguments and the downloader object\<close>

text \<open>
  The parsed \<open>argparse.Namespace\<close>. \<open>format\<close> and \<open>max_filesize\<close> are \<open>None\<close> when the option
  is not given. \<open>max_filesize\<close> is a Python float; the model keeps its exact rational value
  (the only arithmetic done on it is scaling by \<open>1024\<close>, a power of two, which binary floating
  point performs exactly short of overflow).
\<close>

record args =
  urls :: "string list"
  output_dir :: string
  format :: "string option"
  audio_only :: bool
  video_only :: bool
  subtitles :: bool
  sub_lang :: string
  embed_subs :: bool
  merge :: bool
  overwrite :: bool
  quiet :: bool
  max_filesize :: "rat option"
  simulate :: bool

record downloader =
  dl_args :: args
  dl_output_dir :: path
  ffmpeg_available :: bool

subsection \<open>Options handed to the extraction engine\<close>

record postprocessor =
  pp_key :: string
  preferredcodec :: string
  preferredquality :: string

text \<open>
  The dictionary built by \<open>_get_ydl_opts\<close>. A field of option type is \<open>None\<close> when the key is
  absent (for \<open>merge_output_format\<close>: when the key holds Python's \<open>None\<close>).
\<close>

record ydl_opts =
  outtmpl :: string
  opt_quiet :: bool
  no_warnings :: bool
  progress_hooks :: "bool list"
  overwrites :: bool
  restrictfilenames :: bool
  windowsfilenames :: bool
  no_color :: bool
  merge_output_format :: "string option"
  opt_format :: string
  postprocessors :: "postprocessor list option"
  writesubtitles :: "bool option"
  writeautomaticsub :: "bool option"
  subtitlesformat :: "string option"
  subtitleslangs :: "string list option"
  opt_max_filesize :: "rat option"
  paths :: "(string \<times> string) option"

text \<open>Python's \<open>x or d\<close> on an optional string: \<open>None\<close> and the empty string are both falsy.\<close>

definition or_default :: "string option \<Rightarrow> string \<Rightarrow> string" where
  "or_default x d = (case x of None \<Rightarrow> d | Some s \<Rightarrow> if s = [] then d else s)"

definition get_ydl_opts :: "downloader \<Rightarrow> string \<Rightarrow> ydl_opts" where
  "get_ydl_opts self temp_dir =
     (let a = dl_args self;
          opts = \<lparr> outtmpl = dl_output_dir self @ ''/'' @ ''%(title)s.%(ext)s'',
                   opt_quiet = quiet a,
                   no_warnings = quiet a,
                   progress_hooks = [quiet a],
                   overwrites = overwrite a,
                   restrictfilenames = True,
                   windowsfilenames = True,
                   no_color = False,
                   merge_output_format = (if merge a then Some ''mp4'' else None),
                   opt_format = [],
                   postprocessors = None,
                   writesubtitles = None,
                   writeautomaticsub = None,
                   subtitlesformat = None,
                   subtitleslangs = None,
                   opt_max_filesize = None,
                   paths = None \<rparr>;
          opts = (if audio_only a then
                    opts\<lparr> opt_format := or_default (format a) ''bestaudio/best'',
                          postprocessors :=
                            Some (if ffmpeg_available self
                                  then [\<lparr> pp_key = ''FFmpegExtractAudio'',
                                           preferredcodec = ''mp3'',
                                           preferredquality = ''192'' \<rparr>]
                                  else []) \<rparr>
                  else if video_only a then
                    opts\<lparr> opt_format := or_default (format a) ''bestvideo'' \<rparr>
                  else
                    opts\<lparr> opt_format := or_default (format a) ''bestvideo+bestaudio/best'' \<rparr>);
          opts = (if subtitles a then
                    opts\<lparr> writesubtitles := Some True,
                          writeautomaticsub := Some True,
                          subtitlesformat := Some ''srt/vtt/best'',
                          subtitleslangs :=
                            Some (if sub_lang a = ''all'' then [''all''] else [sub_lang a]) \<rparr>
                  else opts);
          opts = (case max_filesize a of
                    None \<Rightarrow> opts
                  | Some mb \<Rightarrow>
                      if mb \<noteq> 0 then opts\<lparr> opt_max_filesize := Some (mb * 1024 * 1024) \<rparr>
                      else opts);
          opts = (if temp_dir \<noteq> [] then
                    opts\<lparr> paths := Some (temp_dir, dl_output_dir self) \<rparr>
                  else opts)
      in opts)"

subsection \<open>Console output\<close>

text \<open>
  One constructor per \<open>print\<close> call of the source, carrying the values the text is built from.
  \<open>is_warning\<close> holds of the messages whose text starts with \<open>Warning:\<close>.
\<close>

record info =
  title :: "string option"
  info_subtitles :: "string list option"
  automatic_captions :: "string list option"

datatype message =
  Warn_ffmpeg_not_found
  | Msg_install_ffmpeg
  | Msg_fetching_formats string
  | Msg_format_listing info
  | Err_fetching_info
  | Msg_rule80
  | Msg_downloading string
  | Msg_dry_run "string option" string path
  | Msg_downloaded path
  | Warn_expected_file_not_found path
  | Err_download
  | Err_unexpected exn
  | Warn_video_not_found path
  | Msg_no_subtitle_files
  | Msg_embedding nat
  | Msg_embedded
  | Warn_embed_failed int
  | Msg_rule60
  | Msg_summary_header
  | Msg_successful nat nat
  | Msg_failed_header
  | Msg_failed_url string
  | Err_main_unexpected exn

fun is_warning :: "message \<Rightarrow> bool" where
  "is_warning Warn_ffmpeg_not_found = True"
| "is_warning (Warn_expected_file_not_found _) = True"
| "is_warning (Warn_video_not_found _) = True"
| "is_warning (Warn_embed_failed _) = True"
| "is_warning _ = False"

subsection \<open>The environment: extraction engine and media-processing binary\<close>

text \<open>
  \<open>info\<close> above is the part of the engine's metadata dictionary the program reads outside the
  format listing: the title and the language keys of the \<open>subtitles\<close> and
  \<open>automatic_captions\<close> entries (\<open>None\<close> when the entry is absent).

  A finished subprocess returns its code and may have written its output file (the last word
  of the command line); a subprocess that cannot be started raises \<open>OSError\<close>.
\<close>

datatype proc = Launch_failed | Exited int "string option"

record list_opts =
  lo_quiet :: bool
  lo_no_warnings :: bool
  lo_simulate :: bool

record env =
  ffmpeg_version :: "exn + int"
  mkdtemp :: string
  resolve_listing :: "list_opts \<Rightarrow> string \<Rightarrow> exn + info"
  resolve :: "ydl_opts \<Rightarrow> string \<Rightarrow> exn + info"
  fetch :: "ydl_opts \<Rightarrow> string \<Rightarrow> fs \<Rightarrow> fs \<times> (exn + info)"
  prepare_filename :: "ydl_opts \<Rightarrow> info \<Rightarrow> string"
  ffmpeg :: "string list \<Rightarrow> fs \<Rightarrow> proc"

text \<open>\<open>ydl.extract_info(url, download=...)\<close>: only a download touches the file system.\<close>

definition extract_info :: "env \<Rightarrow> ydl_opts \<Rightarrow> string \<Rightarrow> bool \<Rightarrow> fs \<Rightarrow> fs \<times> (exn + info)" where
  "extract_info e opts url download files =
     (if download then fetch e opts url files else (files, resolve e opts url))"

subsection \<open>\<open>__init__\<close> and \<open>_check_ffmpeg\<close> (lines 82--115)\<close>

definition check_ffmpeg :: "env \<Rightarrow> exn + bool" where
  "check_ffmpeg e =
     (case ffmpeg_version e of
        Inr returncode \<Rightarrow> Inr (returncode = 0)
      | Inl SubprocessError \<Rightarrow> Inr False
      | Inl (CalledProcessError _) \<Rightarrow> Inr False
      | Inl FileNotFoundError \<Rightarrow> Inr False
      | Inl x \<Rightarrow> Inl x)"

definition init :: "env \<Rightarrow> args \<Rightarrow> message list \<times> (exn + downloader)" where
  "init e a =
     (case check_ffmpeg e of
        Inl x \<Rightarrow> ([], Inl x)
      | Inr available \<Rightarrow>
          (if \<not> available \<and> (merge a \<or> embed_subs a)
           then [Warn_ffmpeg_not_found, Msg_install_ffmpeg] else [],
           Inr \<lparr> dl_args = a, dl_output_dir = Path (output_dir a),
                 ffmpeg_available = available \<rparr>))"

subsection \<open>\<open>_embed_subtitles\<close> (lines 290--372)\<close>

definition keys :: "string list option \<Rightarrow> string list" where
  "keys d = (case d of None \<Rightarrow> [] | Some ks \<Rightarrow> ks)"

text \<open>
  The union of the two key sets. Python iterates a set in no specified order; the model takes
  the order of first occurrence, and no theorem below depends on which order it is.
\<close>

definition caption_languages :: "info \<Rightarrow> string list" where
  "caption_languages i = remdups (keys (info_subtitles i) @ keys (automatic_captions i))"

definition sub_file :: "path \<Rightarrow> string \<Rightarrow> string \<Rightarrow> path" where
  "sub_file base_path lang ext = Path (base_path @ ''.'' @ lang @ ext)"

text \<open>The inner loop (lines 310--314): the first extension whose file exists, then \<open>break\<close>.\<close>

fun probe_formats :: "fs \<Rightarrow> path \<Rightarrow> string \<Rightarrow> string list \<Rightarrow> (string \<times> path) option" where
  "probe_formats files base_path lang [] = None"
| "probe_formats files base_path lang (ext # exts) =
     (if exists files (sub_file base_path lang ext) then Some (lang, sub_file base_path lang ext)
      else probe_formats files base_path lang exts)"

text \<open>The outer loop (line 309); the list is in the order the languages are visited.\<close>

fun find_subtitle_files :: "fs \<Rightarrow> path \<Rightarrow> string list \<Rightarrow> (string \<times> path) list" where
  "find_subtitle_files files base_path [] = []"
| "find_subtitle_files files base_path (lang # langs) =
     (case probe_formats files base_path lang SUPPORTED_SUBTITLE_FORMATS of
        None \<Rightarrow> find_subtitle_files files base_path langs
      | Some found \<Rightarrow> found # find_subtitle_files files base_path langs)"

fun str_nat :: "nat \<Rightarrow> string" where
  "str_nat n =
     (if n < 10 then [char_of (48 + n)] else str_nat (n div 10) @ [char_of (48 + n mod 10)])"

definition ffmpeg_cmd :: "bool \<Rightarrow> path \<Rightarrow> (string \<times> path) list \<Rightarrow> path \<Rightarrow> string list" where
  "ffmpeg_cmd ow video_path subtitle_files temp_output =
     [''ffmpeg'', ''-i'', video_path]
     @ concat (map (\<lambda>(_, f). [''-i'', f]) subtitle_files)
     @ [''-map'', ''0:v'', ''-map'', ''0:a'']
     @ concat (map (\<lambda>i. [''-map'', str_nat (i + 1) @ '':s'']) [0..<length subtitle_files])
     @ concat (map (\<lambda>(i, (lang, _)). [''-metadata:s:s:'' @ str_nat i, ''language='' @ lang])
                 (enumerate 0 subtitle_files))
     @ [''-c'', ''copy'']
     @ [if ow then ''-y'' else ''-n'', temp_output]"

text \<open>\<open>subprocess.run(cmd, check=True)\<close>: the file system afterwards and the exception, if any.\<close>

definition subprocess_run_check :: "env \<Rightarrow> string list \<Rightarrow> path \<Rightarrow> fs \<Rightarrow> fs \<times> exn option" where
  "subprocess_run_check e cmd out_path files =
     (case ffmpeg e cmd files of
        Launch_failed \<Rightarrow> (files, Some OSError)
      | Exited returncode written \<Rightarrow>
          ((case written of None \<Rightarrow> files | Some content \<Rightarrow> files(out_path \<mapsto> content)),
           if returncode = 0 then None else Some (CalledProcessError returncode)))"

text \<open>Lines 364--365: the loop stops at the first \<open>unlink\<close> that raises.\<close>

fun unlink_all :: "fs \<Rightarrow> path list \<Rightarrow> fs \<times> exn option" where
  "unlink_all files [] = (files, None)"
| "unlink_all files (p # ps) =
     (case unlink files p of
        Inl x \<Rightarrow> (files, Some x)
      | Inr files' \<Rightarrow> unlink_all files' ps)"

text \<open>The body of the \<open>try\<close> (lines 350--365).\<close>

definition embed_try ::
  "env \<Rightarrow> string list \<Rightarrow> fs \<Rightarrow> path \<Rightarrow> path \<Rightarrow> (string \<times> path) list
    \<Rightarrow> message list \<times> fs \<times> exn option" where
  "embed_try e cmd files video_path temp_output subtitle_files =
     (case subprocess_run_check e cmd temp_output files of
        (files1, Some x) \<Rightarrow> ([], files1, Some x)
      | (files1, None) \<Rightarrow>
          if exists files1 temp_output then
            (case unlink files1 video_path of
               Inl x \<Rightarrow> ([], files1, Some x)
             | Inr files2 \<Rightarrow>
                 (case rename files2 temp_output video_path of
                    Inl x \<Rightarrow> ([], files2, Some x)
                  | Inr files3 \<Rightarrow>
                      (case unlink_all files3 (map snd subtitle_files) of
                         (files4, r) \<Rightarrow> ([Msg_embedded], files4, r))))
          else ([], files1, None))"

definition embed_subtitles ::
  "env \<Rightarrow> downloader \<Rightarrow> fs \<Rightarrow> path \<Rightarrow> info \<Rightarrow> message list \<times> fs \<times> (exn + path)" where
  "embed_subtitles e self files video_path i =
     (if \<not> exists files video_path then
        ([Warn_video_not_found video_path], files, Inr video_path)
      else
        case with_suffix video_path [] of
          Inl x \<Rightarrow> ([], files, Inl x)
        | Inr base_path \<Rightarrow>
            let subtitle_files = find_subtitle_files files base_path (caption_languages i) in
            if subtitle_files = [] then ([Msg_no_subtitle_files], files, Inr video_path)
            else
              case with_suffix video_path (''.temp'' @ path_suffix video_path) of
                Inl x \<Rightarrow> ([Msg_embedding (length subtitle_files)], files, Inl x)
              | Inr temp_output \<Rightarrow>
                  let cmd = ffmpeg_cmd (overwrite (dl_args self)) video_path subtitle_files
                              temp_output
                  in case embed_try e cmd files video_path temp_output subtitle_files of
                       (out, files1, None) \<Rightarrow>
                         (Msg_embedding (length subtitle_files) # out, files1, Inr video_path)
                     | (out, files1, Some (CalledProcessError returncode)) \<Rightarrow>
                         (Msg_embedding (length subtitle_files) # out
                            @ [Warn_embed_failed returncode],
                          (if exists files1 temp_output then files1(temp_output := None)
                           else files1),
                          Inr video_path)
                     | (out, files1, Some x) \<Rightarrow>
                         (Msg_embedding (length subtitle_files) # out, files1, Inl x))"

subsection \<open>\<open>download_video\<close> (lines 234--288)\<close>

text \<open>
  The body of the \<open>try\<close>. The Embedder is the parameter \<open>embedder\<close> (the method
  \<open>self._embed_subtitles\<close>), so that ``never invoked'' can be said: the result does not depend
  on it.
\<close>

definition download_video_try ::
  "(fs \<Rightarrow> path \<Rightarrow> info \<Rightarrow> message list \<times> fs \<times> (exn + path)) \<Rightarrow> env \<Rightarrow> downloader
    \<Rightarrow> ydl_opts \<Rightarrow> fs \<Rightarrow> string \<Rightarrow> message list \<times> fs \<times> (exn + string option)" where
  "download_video_try embedder e self opts files url =
     (let a = dl_args self;
          out0 = (if \<not> quiet a then [Msg_downloading url] else [])
      in case extract_info e opts url (\<not> simulate a) files of
           (files1, Inl x) \<Rightarrow> (out0, files1, Inl x)
         | (files1, Inr i) \<Rightarrow>
             if simulate a then
               (out0 @ [Msg_dry_run (title i) (opt_format opts) (dl_output_dir self)],
                files1, Inr None)
             else
               case (if audio_only a \<and> ffmpeg_available self
                     then with_suffix (Path (prepare_filename e opts i)) ''.mp3''
                     else Inr (Path (prepare_filename e opts i))) of
                 Inl x \<Rightarrow> (out0, files1, Inl x)
               | Inr output_path \<Rightarrow>
                   (case (if embed_subs a \<and> subtitles a \<and> ffmpeg_available self
                          then embedder files1 output_path i
                          else ([], files1, Inr output_path)) of
                      (out1, files2, Inl x) \<Rightarrow> (out0 @ out1, files2, Inl x)
                    | (out1, files2, Inr final_path) \<Rightarrow>
                        if exists files2 final_path then
                          (out0 @ out1 @ [Msg_downloaded final_path], files2,
                           Inr (Some final_path))
                        else
                          (out0 @ out1 @ [Warn_expected_file_not_found final_path], files2,
                           Inr None)))"

text \<open>The two \<open>except\<close> clauses (lines 283--288): every exception becomes the result \<open>None\<close>.\<close>

definition download_video_with ::
  "(fs \<Rightarrow> path \<Rightarrow> info \<Rightarrow> message list \<times> fs \<times> (exn + path)) \<Rightarrow> env \<Rightarrow> downloader
    \<Rightarrow> fs \<Rightarrow> string \<Rightarrow> message list \<times> fs \<times> string option" where
  "download_video_with embedder e self files url =
     (case download_video_try embedder e self (get_ydl_opts self (mkdtemp e)) files url of
        (out, files', Inl DownloadError) \<Rightarrow> (out @ [Err_download], files', None)
      | (out, files', Inl x) \<Rightarrow> (out @ [Err_unexpected x], files', None)
      | (out, files', Inr result) \<Rightarrow> (out, files', result))"

definition download_video ::
  "env \<Rightarrow> downloader \<Rightarrow> fs \<Rightarrow> string \<Rightarrow> message list \<times> fs \<times> string option" where
  "download_video e self = download_video_with (embed_subtitles e self) e self"

subsection \<open>\<open>list_formats\<close> (lines 175--232)\<close>

datatype 'a outcome = Return 'a | Exit int | Raise exn

definition list_formats_opts :: list_opts where
  "list_formats_opts = \<lparr> lo_quiet = True, lo_no_warnings = True, lo_simulate = True \<rparr>"

text \<open>The rendering of the catalogue (lines 194--228) is the one message \<open>Msg_format_listing\<close>.\<close>

definition list_formats :: "env \<Rightarrow> string \<Rightarrow> message list \<times> unit outcome" where
  "list_formats e url =
     (case resolve_listing e list_formats_opts url of
        Inr i \<Rightarrow> ([Msg_fetching_formats url, Msg_format_listing i], Return ())
      | Inl DownloadError \<Rightarrow>
          ([Msg_fetching_formats url, Err_fetching_info], Exit EXIT_NETWORK_ERROR)
      | Inl x \<Rightarrow> ([Msg_fetching_formats url], Raise x))"

subsection \<open>\<open>run\<close> (lines 390--424) and \<open>main\<close> (lines 577--594)\<close>

text \<open>The simulate loop (lines 399--401).\<close>

fun list_all :: "env \<Rightarrow> string list \<Rightarrow> message list \<times> unit outcome" where
  "list_all e [] = ([], Return ())"
| "list_all e (url # rest) =
     (case list_formats e url of
        (out, Return _) \<Rightarrow>
          (case list_all e rest of (out', r) \<Rightarrow> (out @ [Msg_rule80] @ out', r))
      | (out, r) \<Rightarrow> (out, r))"

text \<open>\<open>if result:\<close> on an optional string.\<close>

definition truthy :: "string option \<Rightarrow> bool" where
  "truthy r = (case r of None \<Rightarrow> False | Some s \<Rightarrow> s \<noteq> [])"

text \<open>The download loop (lines 405--413), over any \<open>download_video\<close>.\<close>

fun download_loop ::
  "(fs \<Rightarrow> string \<Rightarrow> message list \<times> fs \<times> string option) \<Rightarrow> string list \<Rightarrow> fs \<Rightarrow> nat
    \<Rightarrow> string list \<Rightarrow> message list \<times> fs \<times> nat \<times> string list" where
  "download_loop dv [] files success_count failed_urls = ([], files, success_count, failed_urls)"
| "download_loop dv (url # rest) files success_count failed_urls =
     (case dv files url of
        (out, files1, result) \<Rightarrow>
          (case (if truthy result then download_loop dv rest files1 (success_count + 1) failed_urls
                 else download_loop dv rest files1 success_count (failed_urls @ [url])) of
             (out', st) \<Rightarrow> (out @ out', st)))"

definition summary :: "nat \<Rightarrow> nat \<Rightarrow> string list \<Rightarrow> message list" where
  "summary success_count n_urls failed_urls =
     [Msg_rule60, Msg_summary_header, Msg_successful success_count n_urls]
     @ (if failed_urls \<noteq> [] then Msg_failed_header # map Msg_failed_url failed_urls else [])"

definition run :: "env \<Rightarrow> downloader \<Rightarrow> fs \<Rightarrow> message list \<times> fs \<times> int outcome" where
  "run e self files =
     (let a = dl_args self in
      if simulate a then
        (case list_all e (urls a) of
           (out, Return _) \<Rightarrow> (out, files, Return EXIT_SUCCESS)
         | (out, Exit code) \<Rightarrow> (out, files, Exit code)
         | (out, Raise x) \<Rightarrow> (out, files, Raise x))
      else
        case download_loop (download_video e self) (urls a) files 0 [] of
          (out, files', success_count, failed_urls) \<Rightarrow>
            (out @ summary success_count (length (urls a)) failed_urls, files',
             Return (if int success_count = int (length (urls a)) then EXIT_SUCCESS
                     else EXIT_GENERAL_ERROR)))"

text \<open>
  \<open>main\<close> after \<open>parse_arguments\<close>: the console output, the file system and the process exit
  status.
\<close>

definition main :: "env \<Rightarrow> args \<Rightarrow> fs \<Rightarrow> message list \<times> fs \<times> int" where
  "main e a files =
     (case init e a of
        (out, Inl x) \<Rightarrow> (out @ [Err_main_unexpected x], files, EXIT_GENERAL_ERROR)
      | (out, Inr self) \<Rightarrow>
          (case run e self files of
             (out', files', Return exit_code) \<Rightarrow> (out @ out', files', exit_code)
           | (out', files', Exit code) \<Rightarrow> (out @ out', files', code)
           | (out', files', Raise x) \<Rightarrow>
               (out @ out' @ [Err_main_unexpected x], files', EXIT_GENERAL_ERROR)))"
subsection \<open>Sample inputs\<close>

definition example_args :: args where
  "example_args =
     \<lparr> urls = [''https://youtu.be/abc''], output_dir = ''/out'', format = None,
       audio_only = False, video_only = False, subtitles = False, sub_lang = ''en'',
       embed_subs = False, merge = False, overwrite = False, quiet = False,
       max_filesize = None, simulate = False \<rparr>"

definition example_self :: "args \<Rightarrow> bool \<Rightarrow> downloader" where
  "example_self a available =
     \<lparr> dl_args = a, dl_output_dir = Path (output_dir a), ffmpeg_available = available \<rparr>"

section \<open>Properties\<close>

subsection \<open>Paths\<close>

lemma rfind_split:
  assumes "c \<notin> set ys"
  shows "rfind c (xs @ c # ys) = int (length xs)"
proof -
  have "takeWhile (\<lambda>x. x \<noteq> c) (rev ys @ c # rev xs) = rev ys"
    using assms by (auto simp: takeWhile_tail)
  then show ?thesis by (simp add: rfind_def)
qed

lemma rfind_absent: "c \<notin> set s \<Longrightarrow> rfind c s = - 1"
  by (simp add: rfind_def)

lemma unique_last_split:
  assumes "xs @ c # ys = xs' @ (c::char) # ys'" and "c \<notin> set ys" and "c \<notin> set ys'"
  shows "xs = xs' \<and> ys = ys'"
proof -
  have "rfind c (xs @ c # ys) = int (length xs)" using assms(2) by (rule rfind_split)
  moreover have "rfind c (xs' @ c # ys') = int (length xs')" using assms(3) by (rule rfind_split)
  ultimately have "length xs = length xs'" using assms(1) by simp
  with assms(1) show ?thesis by simp
qed

lemma path_name_no_slash: "CHR ''/'' \<notin> set (path_name p)"
proof -
  have "\<forall>x \<in> set (takeWhile (\<lambda>c. c \<noteq> CHR ''/'') (rev p)). x \<noteq> CHR ''/''"
    by (auto dest: set_takeWhileD)
  then show ?thesis by (auto simp: path_name_def)
qed

lemma path_name_decomp:
  assumes "p \<noteq> ''.''"
  shows "\<exists>d. p = d @ path_name p \<and> (d = [] \<or> last d = CHR ''/'')"
proof -
  let ?P = "\<lambda>c. c \<noteq> CHR ''/''"
  define d where "d = rev (dropWhile ?P (rev p))"
  define n where "n = rev (takeWhile ?P (rev p))"
  have "rev p = rev n @ rev d" by (simp add: d_def n_def)
  then have "rev p = rev (d @ n)" by simp
  then have p: "p = d @ n" by (simp only: rev_is_rev_conv)
  have n: "path_name p = n" using assms by (simp add: path_name_def n_def)
  have "dropWhile ?P (rev p) = [] \<or> hd (dropWhile ?P (rev p)) = CHR ''/''"
    using hd_dropWhile[of ?P "rev p"] by auto
  then have "d = [] \<or> last d = CHR ''/''"
    by (auto simp: d_def last_rev)
  with p n show ?thesis by metis
qed

lemma path_name_append:
  assumes "d = [] \<or> last d = CHR ''/''" and "CHR ''/'' \<notin> set n" and "d @ n \<noteq> ''.''"
  shows "path_name (d @ n) = n"
proof -
  let ?P = "\<lambda>c. c \<noteq> CHR ''/''"
  have "takeWhile ?P (rev n @ rev d) = rev n"
  proof (cases "d = []")
    case True
    then show ?thesis using assms(2) by (auto simp: takeWhile_eq_all_conv)
  next
    case False
    then obtain d' where "d = d' @ [CHR ''/'']" using assms(1)
      by (metis append_butlast_last_id)
    then show ?thesis using assms(2) by (auto simp: takeWhile_tail)
  qed
  then show ?thesis using assms(3) by (simp add: path_name_def)
qed

lemma path_suffix_cases:
  obtains (none) "path_suffix p = []"
  | (some) st t where "path_name p = st @ CHR ''.'' # t" "st \<noteq> []" "t \<noteq> []"
      "CHR ''.'' \<notin> set t" "path_suffix p = CHR ''.'' # t"
proof (cases "CHR ''.'' \<in> set (path_name p)")
  case False
  then have "path_suffix p = []" by (simp add: path_suffix_def rfind_absent)
  then show ?thesis by (rule none)
next
  case True
  then obtain st t where nm: "path_name p = st @ CHR ''.'' # t" and t: "CHR ''.'' \<notin> set t"
    by (meson split_list_last)
  have i: "rfind (CHR ''.'') (path_name p) = int (length st)"
    unfolding nm using t by (rule rfind_split)
  show ?thesis
  proof (cases "st \<noteq> [] \<and> t \<noteq> []")
    case True
    then have "path_suffix p = CHR ''.'' # t"
      using i nm by (simp add: path_suffix_def Let_def)
    with True nm t show ?thesis by (auto intro: some)
  next
    case False
    then have "path_suffix p = []"
      using i nm by (auto simp: path_suffix_def Let_def)
    then show ?thesis by (rule none)
  qed
qed

lemma path_suffix_append:
  assumes d: "d = [] \<or> last d = CHR ''/''" and st: "CHR ''/'' \<notin> set st" "st \<noteq> []"
    and t: "CHR ''.'' \<notin> set t" "t \<noteq> []" "CHR ''/'' \<notin> set t"
  shows "path_name (d @ st @ CHR ''.'' # t) = st @ CHR ''.'' # t"
    and "path_suffix (d @ st @ CHR ''.'' # t) = CHR ''.'' # t"
proof -
  have ne: "d @ st @ CHR ''.'' # t \<noteq> ''.''"
    using st(2) t(2) by (cases st; cases t) auto
  show nm: "path_name (d @ st @ CHR ''.'' # t) = st @ CHR ''.'' # t"
    using path_name_append[of d "st @ CHR ''.'' # t"] d st(1) t(3) ne by simp
  have "rfind (CHR ''.'') (st @ CHR ''.'' # t) = int (length st)"
    using t(1) by (rule rfind_split)
  then show "path_suffix (d @ st @ CHR ''.'' # t) = CHR ''.'' # t"
    using nm st(2) t(2) by (simp add: path_suffix_def Let_def)
qed

text \<open>A path with a name splits into a base and its suffix.\<close>

lemma path_split:
  assumes "path_name p \<noteq> []"
  obtains d st where "p = d @ st @ path_suffix p" "d = [] \<or> last d = CHR ''/''"
    "path_name p = st @ path_suffix p" "st \<noteq> []" "CHR ''/'' \<notin> set st"
    "CHR ''/'' \<notin> set (path_suffix p)"
    "path_suffix p = [] \<or> (\<exists>t. path_suffix p = CHR ''.'' # t \<and> CHR ''.'' \<notin> set t \<and> t \<noteq> [])"
proof -
  have "p \<noteq> ''.''" using assms by (auto simp: path_name_def)
  then obtain d where d: "p = d @ path_name p" "d = [] \<or> last d = CHR ''/''"
    using path_name_decomp by blast
  have ns: "CHR ''/'' \<notin> set (path_name p)" by (rule path_name_no_slash)
  show ?thesis
  proof (cases p rule: path_suffix_cases)
    case none
    show ?thesis
      using that[of d "path_name p"] d ns assms none by simp
  next
    case (some st t)
    have "p = d @ st @ path_suffix p" using d(1) some(1,5) by simp
    moreover have "CHR ''/'' \<notin> set st" "CHR ''/'' \<notin> set (path_suffix p)"
      using ns some(1,5) by auto
    ultimately show ?thesis
      using that[of d st] d(2) some by auto
  qed
qed

lemma with_suffix_Inr:
  assumes "path_name p \<noteq> []" and "CHR ''/'' \<notin> set s" and "s = [] \<or> take 1 s = ''.''"
    and "s \<noteq> ''.''"
  shows "\<exists>d st. with_suffix p s = Inr (d @ st @ s) \<and> p = d @ st @ path_suffix p
    \<and> (d = [] \<or> last d = CHR ''/'') \<and> st \<noteq> [] \<and> CHR ''/'' \<notin> set st"
proof -
  obtain d st where sp: "p = d @ st @ path_suffix p" "d = [] \<or> last d = CHR ''/''"
    "st \<noteq> []" "CHR ''/'' \<notin> set st"
    using path_split[OF assms(1)] by metis
  have len: "length p - length (path_suffix p) = length (d @ st)"
    using arg_cong[OF sp(1), of length] by simp
  have "take (length p - length (path_suffix p)) p = d @ st"
    unfolding len by (subst sp(1)) simp
  moreover have "path_suffix p = [] \<Longrightarrow> p = d @ st" using sp(1) by simp
  ultimately have "with_suffix p s = Inr (d @ st @ s)"
    using assms by (auto simp: with_suffix_def)
  then show ?thesis using sp by blast
qed

lemma with_suffix_Inr_name: "with_suffix p s = Inr q \<Longrightarrow> path_name p \<noteq> []"
  by (auto simp: with_suffix_def split: if_splits)

lemma with_suffix_mp3:
  assumes "with_suffix p ''.mp3'' = Inr q"
  shows "path_suffix q = ''.mp3''"
proof -
  have nm: "path_name p \<noteq> []" using assms by (rule with_suffix_Inr_name)
  obtain d st where q: "with_suffix p ''.mp3'' = Inr (d @ st @ ''.mp3'')"
    and d: "d = [] \<or> last d = CHR ''/''" and st: "st \<noteq> []" "CHR ''/'' \<notin> set st"
    using with_suffix_Inr[OF nm, of "''.mp3''"] by auto
  have "path_suffix (d @ st @ CHR ''.'' # ''mp3'') = CHR ''.'' # ''mp3''"
    using d st by (intro path_suffix_append) auto
  then show ?thesis using q assms by simp
qed

lemma with_suffix_mp3_total: "path_name p \<noteq> [] \<Longrightarrow> \<exists>q. with_suffix p ''.mp3'' = Inr q"
  using with_suffix_Inr[of p "''.mp3''"] by auto
subsection \<open>The option builder\<close>

lemma get_ydl_opts_format:
  "opt_format (get_ydl_opts self tmp) =
     or_default (format (dl_args self))
       (if audio_only (dl_args self) then ''bestaudio/best''
        else if video_only (dl_args self) then ''bestvideo''
        else ''bestvideo+bestaudio/best'')"
  by (simp add: get_ydl_opts_def Let_def split: option.splits)

lemma get_ydl_opts_merge:
  "merge_output_format (get_ydl_opts self tmp) =
     (if merge (dl_args self) then Some ''mp4'' else None)"
  by (simp add: get_ydl_opts_def Let_def split: option.splits)

lemma get_ydl_opts_postprocessors:
  "postprocessors (get_ydl_opts self tmp) =
     (if audio_only (dl_args self) then
        Some (if ffmpeg_available self
              then [\<lparr> pp_key = ''FFmpegExtractAudio'', preferredcodec = ''mp3'',
                       preferredquality = ''192'' \<rparr>]
              else [])
      else None)"
  by (simp add: get_ydl_opts_def Let_def split: option.splits)

lemma get_ydl_opts_max_filesize:
  "opt_max_filesize (get_ydl_opts self tmp) =
     (case max_filesize (dl_args self) of
        None \<Rightarrow> None
      | Some mb \<Rightarrow> if mb \<noteq> 0 then Some (mb * 1024 * 1024) else None)"
  by (simp add: get_ydl_opts_def Let_def split: option.splits)

text \<open>
  Claim C4, as the code has it. The format selector handed to the engine is the user's format
  string when one is given and is not empty; when none is given, or the empty string is
  (\<open>self.args.format or ...\<close> takes both as absent), it is the default of the mode:
  \<open>bestaudio/best\<close> for audio only, \<open>bestvideo\<close> for video only, \<open>bestvideo+bestaudio/best\<close>
  otherwise. A set merge flag fixes the merge container to \<open>mp4\<close>.
\<close>

theorem format_selector_resolution:
  "(\<forall>s. format (dl_args self) = Some s \<and> s \<noteq> [] \<longrightarrow> opt_format (get_ydl_opts self tmp) = s)
   \<and> (format (dl_args self) = None \<or> format (dl_args self) = Some [] \<longrightarrow>
        opt_format (get_ydl_opts self tmp) =
          (if audio_only (dl_args self) then ''bestaudio/best''
           else if video_only (dl_args self) then ''bestvideo''
           else ''bestvideo+bestaudio/best''))
   \<and> (merge (dl_args self) \<longrightarrow> merge_output_format (get_ydl_opts self tmp) = Some ''mp4'')"
  by (auto simp: get_ydl_opts_format get_ydl_opts_merge or_default_def)

text \<open>A numeric format string is passed on; the spec's example request gets the Combined default and \<open>mp4\<close>.\<close>

theorem format_selector_resolution_witness:
  "opt_format (get_ydl_opts (example_self (example_args\<lparr>format := Some ''137+140''\<rparr>) True)
      ''/tmp/t'') = ''137+140''
   \<and> opt_format (get_ydl_opts (example_self (example_args\<lparr>merge := True\<rparr>) True) ''/tmp/t'')
       = ''bestvideo+bestaudio/best''
   \<and> merge_output_format (get_ydl_opts (example_self (example_args\<lparr>merge := True\<rparr>) True)
       ''/tmp/t'') = Some ''mp4''"
  using format_selector_resolution
          [of "example_self (example_args\<lparr>format := Some ''137+140''\<rparr>) True" "''/tmp/t''"]
        format_selector_resolution
          [of "example_self (example_args\<lparr>merge := True\<rparr>) True" "''/tmp/t''"]
  by (simp add: example_self_def example_args_def)

text \<open>
  Claim C4 as stated fails for \<open>-f ''\<close>: a format string is given, and the selector passed on
  is the mode default, not that string.
\<close>

theorem empty_format_string_counterexample:
  "format (dl_args (example_self (example_args\<lparr>format := Some []\<rparr>) True)) = Some []
   \<and> opt_format (get_ydl_opts (example_self (example_args\<lparr>format := Some []\<rparr>) True)
        ''/tmp/t'') \<noteq> []
   \<and> opt_format (get_ydl_opts (example_self (example_args\<lparr>format := Some []\<rparr>) True)
        ''/tmp/t'') = ''bestvideo+bestaudio/best''"
  by (simp add: get_ydl_opts_format or_default_def example_self_def example_args_def)

text \<open>
  Claim C9, as the code has it. A size cap that is given and is not zero is passed to the engine
  as the megabyte value times 1024 times 1024; 10 MB are exactly 10485760 bytes. A cap of 0
  does not pass the guard \<open>if self.args.max_filesize\<close>: like an absent cap, it attaches no
  ceiling.
\<close>

theorem size_cap_bytes:
  "(\<forall>mb. max_filesize (dl_args self) = Some mb \<and> mb \<noteq> 0 \<longrightarrow>
        opt_max_filesize (get_ydl_opts self tmp) = Some (mb * 1024 * 1024))
   \<and> (max_filesize (dl_args self) = Some 10 \<longrightarrow>
        opt_max_filesize (get_ydl_opts self tmp) = Some 10485760)
   \<and> (max_filesize (dl_args self) = Some 0 \<or> max_filesize (dl_args self) = None \<longrightarrow>
        opt_max_filesize (get_ydl_opts self tmp) = None)"
  by (auto simp: get_ydl_opts_max_filesize)

text \<open>The spec's example: \<open>max_filesize=10\<close>.\<close>

theorem size_cap_bytes_witness:
  "opt_max_filesize
     (get_ydl_opts (example_self (example_args\<lparr>max_filesize := Some 10\<rparr>) True) ''/tmp/t'')
   = Some 10485760"
  using size_cap_bytes
          [of "example_self (example_args\<lparr>max_filesize := Some 10\<rparr>) True" "''/tmp/t''"]
  by (simp add: example_self_def example_args_def)

text \<open>
  Claim C9 as stated fails for \<open>--max-filesize 0\<close>: a cap is set, and no cap at all reaches the
  engine (the claim asks for the cap \<open>0 * 1024 * 1024\<close>).
\<close>

theorem zero_size_cap_counterexample:
  "max_filesize (dl_args (example_self (example_args\<lparr>max_filesize := Some 0\<rparr>) True)) = Some 0
   \<and> opt_max_filesize
        (get_ydl_opts (example_self (example_args\<lparr>max_filesize := Some 0\<rparr>) True) ''/tmp/t'')
      = None"
  by (simp add: get_ydl_opts_max_filesize example_self_def example_args_def)

end
